theory Spec2Isabelle
  imports Complex_Main
begin

section \<open>Values, dictionaries and errors\<close>

text \<open>
  Setting values are the strings and integers of the Settings mapping: the built-in
  defaults are one string and one integer, environment variables are strings, and the
  constructor of \<open>AppleAPI\<close> documents \<open>str\<close> and \<open>int\<close> parameters.
\<close>

datatype cval = CStr string | CInt int

text \<open>The exceptions the program raises itself or lets through from a library.\<close>

datatype error =
    KeyError string
  | ValueError string
  | TypeError string
  | AttributeError string
  | RuntimeError string
  | OSError string
  | JSONDecodeError string
  | PyJWTError string
  | RequestException string
  | OverflowError string
  | UnicodeEncodeError string

text \<open>
  A Python \<open>dict\<close> is an association list in insertion order: assigning to a key that
  is present replaces its value in place, a new key goes to the end.
\<close>

type_synonym ('k, 'v) dict = "('k \<times> 'v) list"

fun dict_set :: "'k \<Rightarrow> 'v \<Rightarrow> ('k, 'v) dict \<Rightarrow> ('k, 'v) dict" where
  "dict_set k v [] = [(k, v)]"
| "dict_set k v (p # d) = (if fst p = k then (k, v) # d else p # dict_set k v d)"

definition dict_get :: "('k, 'v) dict \<Rightarrow> 'k \<Rightarrow> 'v option" where
  "dict_get d k = map_of d k"

definition dict_in :: "'k \<Rightarrow> ('k, 'v) dict \<Rightarrow> bool" where
  "dict_in k d = (dict_get d k \<noteq> None)"

text \<open>\<open>d.update(other)\<close>: the items of \<open>other\<close> are assigned in their order.\<close>

definition dict_update :: "('k, 'v) dict \<Rightarrow> ('k, 'v) dict \<Rightarrow> ('k, 'v) dict" where
  "dict_update d other = fold (\<lambda>p acc. dict_set (fst p) (snd p) acc) other d"


subsection \<open>Formatting\<close>

text \<open>The decimal digit of a number below ten.\<close>

definition digit_char :: "nat \<Rightarrow> char" where
  "digit_char n = ''0123456789'' ! n"

fun str_nat :: "nat \<Rightarrow> string" where
  "str_nat n = (if n < 10 then [digit_char n] else str_nat (n div 10) @ [digit_char (n mod 10)])"

declare str_nat.simps [simp del]

text \<open>\<open>str(n)\<close> of a Python integer.\<close>

definition str_int :: "int \<Rightarrow> string" where
  "str_int i = (if i < 0 then CHR ''-'' # str_nat (nat (- i)) else str_nat (nat i))"

text \<open>What an f-string or \<open>%s\<close> puts for a setting value.\<close>

fun str_cval :: "cval \<Rightarrow> string" where
  "str_cval (CStr s) = s"
| "str_cval (CInt i) = str_int i"

text \<open>What an f-string puts for a value that is a string or \<open>None\<close>.\<close>

fun str_opt :: "string option \<Rightarrow> string" where
  "str_opt None = ''None''"
| "str_opt (Some s) = s"

text \<open>\<open>str.upper()\<close> on the ASCII names of the settings.\<close>

definition upper_char :: "char \<Rightarrow> char" where
  "upper_char c =
     (let n = (of_char c :: nat) in if 97 \<le> n \<and> n \<le> 122 then char_of (n - 32) else c)"

definition upper :: "string \<Rightarrow> string" where
  "upper s = map upper_char s"

subsection \<open>Floats\<close>

text \<open>
  A Python float is an IEEE 754 double. A finite double is the rational number it
  denotes; arithmetic computes the exact result and rounds it to the nearest double, ties
  to the even significand. \<open>binade x\<close> is the exponent \<open>e\<close> with
  \<open>2^e \<le> |x| < 2^(e+1)\<close>, \<open>ulp x\<close> the distance between neighbouring doubles
  there (53 significant bits, and the fixed spacing \<open>2^-1074\<close> below \<open>2^-1022\<close>). A
  rounded result of magnitude \<open>2^1024\<close> or more stands for an infinity.
\<close>

definition pow2 :: "int \<Rightarrow> rat" where
  "pow2 e = (if 0 \<le> e then 2 ^ nat e else 1 / 2 ^ nat (- e))"

text \<open>\<open>n.bit_length()\<close> of a natural number.\<close>

fun bit_length :: "nat \<Rightarrow> nat" where
  "bit_length n = (if n = 0 then 0 else Suc (bit_length (n div 2)))"

declare bit_length.simps [simp del]

definition binade :: "rat \<Rightarrow> int" where
  "binade x =
     (if 1 \<le> \<bar>x\<bar> then int (bit_length (nat \<lfloor>\<bar>x\<bar>\<rfloor>)) - 1
      else - int (bit_length (nat (\<lceil>1 / \<bar>x\<bar>\<rceil> - 1))))"

definition ulp :: "rat \<Rightarrow> rat" where
  "ulp x = pow2 (max (binade x) (- 1022) - 52)"

definition round_half_even :: "rat \<Rightarrow> int" where
  "round_half_even y =
     (let f = \<lfloor>y\<rfloor>; d = y - of_int f
      in if d < 1 / 2 then f else if 1 / 2 < d then f + 1 else if even f then f else f + 1)"

definition round_double :: "rat \<Rightarrow> rat" where
  "round_double x = (if x = 0 then 0 else of_int (round_half_even (x / ulp x)) * ulp x)"

definition is_inf :: "rat \<Rightarrow> bool" where
  "is_inf x = (pow2 1024 \<le> \<bar>x\<bar>)"

text \<open>\<open>float(n)\<close> of an integer, as the addition of a float and an integer converts
  it: the nearest double, or \<open>OverflowError\<close>.\<close>

definition float_of_int :: "int \<Rightarrow> error + rat" where
  "float_of_int n =
     (let r = round_double (of_int n)
      in if is_inf r then Inl (OverflowError ''int too large to convert to float'') else Inr r)"

text \<open>The sum of two floats; an overflow gives an infinity and raises nothing.\<close>

definition float_add :: "rat \<Rightarrow> rat \<Rightarrow> rat" where
  "float_add x y = round_double (x + y)"

text \<open>\<open>int(x)\<close> of a float: truncation towards zero, \<open>OverflowError\<close> for an
  infinity.\<close>

definition trunc :: "rat \<Rightarrow> int" where
  "trunc x = (if 0 \<le> x then \<lfloor>x\<rfloor> else \<lceil>x\<rceil>)"

definition int_of_float :: "rat \<Rightarrow> error + int" where
  "int_of_float x =
     (if is_inf x then Inl (OverflowError ''cannot convert float infinity to integer'')
      else Inr (trunc x))"

section \<open>The world the program runs in\<close>

text \<open>
  One HTTP call as \<open>requests\<close> receives it: the verb selects the function, the keyword
  arguments are \<open>verify\<close>, and \<open>body\<close> and \<open>headers\<close> when they are not \<open>None\<close>.
\<close>

record request =
  rq_verb :: string
  rq_url :: string
  rq_verify :: bool
  rq_body :: "string option"
  rq_headers :: "(string, string) dict option"

type_synonym response = "int \<times> (string, string) dict \<times> string"

datatype out_event = Print string | PrintUsage

text \<open>
  The state and the collaborators of one process. \<open>files\<close> holds the text files that
  can be opened for reading, \<open>fds\<close> the open file descriptors (\<open>open\<close> of an integer),
  \<open>writable\<close> tells whether a file can be opened for writing, \<open>write_fails\<close> tells
  for a file name and a text whether writing the text to the opened file (or closing it)
  raises, with the exception and the number of characters that have reached the file by
  then, \<open>now\<close> is the double that \<open>time.time()\<close> returns. \<open>json_loads\<close> stands for \<open>json.loads\<close> as the
  configurator uses it: the result is the list of items that \<open>update\<close> then assigns
  (the members of a JSON object, with string or integer values), or the exception that
  \<open>json.loads\<close> raises on the text or \<open>update\<close> on a value that is no mapping;
  \<open>jwt_encode\<close> stands for \<open>jwt.encode(payload, key, algorithm, headers)\<close>, and
  \<open>http\<close> for the call of \<open>requests\<close>. \<open>heap\<close> holds the header dictionaries that
  are passed by reference, \<open>token_cache\<close> the single entry of the \<open>lru_cache(1)\<close> on
  the token generator (the instance it was computed for, and the token), \<open>sent\<close> the
  HTTP calls made so far, \<open>stdout\<close> what was printed.
\<close>

record world =
  files :: "string \<rightharpoonup> string"
  fds :: "int \<rightharpoonup> string"
  writable :: "string \<Rightarrow> bool"
  write_fails :: "string \<Rightarrow> string \<Rightarrow> (error \<times> nat) option"
  environ :: "string \<rightharpoonup> string"
  now :: rat
  json_loads :: "string \<Rightarrow> error + (string, cval) dict"
  jwt_encode :: "(string, cval) dict \<Rightarrow> string \<Rightarrow> string \<Rightarrow> (string, cval) dict \<Rightarrow> error + string"
  http :: "request \<Rightarrow> error + response"
  heap :: "nat \<Rightarrow> (string, string) dict"
  token_cache :: "(nat \<times> string) option"
  sent :: "request list"
  stdout :: "out_event list"

text \<open>\<open>open(path, "r")\<close> and \<open>read()\<close>.\<close>

definition read_file :: "world \<Rightarrow> string \<Rightarrow> error + string" where
  "read_file w path = (case files w path of None \<Rightarrow> Inl (OSError path) | Some c \<Rightarrow> Inr c)"

definition read_path :: "world \<Rightarrow> cval \<Rightarrow> error + string" where
  "read_path w p =
     (case p of
        CStr path \<Rightarrow> read_file w path
      | CInt fd \<Rightarrow>
          if fd < 0 then Inl (ValueError ''negative file descriptor'')
          else (case fds w fd of None \<Rightarrow> Inl (OSError (str_int fd)) | Some c \<Rightarrow> Inr c))"

section \<open>Configurator\<close>

definition defaults :: "(string, cval) dict" where
  "defaults = [(''api_base_url'', CStr ''https://musicanalytics.apple.com''),
               (''jwt_expire_sec'', CInt 1200)]"

definition required_items :: "string list" where
  "required_items = [''api_base_url'', ''issuer_id'', ''jwt_expire_sec'', ''key_id'', ''privkey_path'']"

text \<open>\<open>__configure_from_file\<close>: read the file, parse it, update the configuration.\<close>

definition load_config_file :: "world \<Rightarrow> string \<Rightarrow> error + (string, cval) dict" where
  "load_config_file w path =
     (case read_file w path of Inl e \<Rightarrow> Inl e | Inr contents \<Rightarrow> json_loads w contents)"

definition configure_from_file ::
  "world \<Rightarrow> string option \<Rightarrow> (string, cval) dict \<Rightarrow> error + (string, cval) dict" where
  "configure_from_file w config_file config =
     (case config_file of
        None \<Rightarrow> Inr config
      | Some path \<Rightarrow>
          (case load_config_file w path of
             Inl e \<Rightarrow> Inl e
           | Inr loaded \<Rightarrow> Inr (dict_update config loaded)))"

text \<open>\<open>__configure_from_env\<close>: the loop over the required items.\<close>

fun configure_from_env_loop ::
  "(string \<rightharpoonup> string) \<Rightarrow> string list \<Rightarrow> (string, cval) dict \<Rightarrow> (string, cval) dict" where
  "configure_from_env_loop env_vars [] config = config"
| "configure_from_env_loop env_vars (item # items) config =
     (let item_upper = upper item in
      case env_vars item_upper of
        Some v \<Rightarrow> configure_from_env_loop env_vars items (dict_update config [(item, CStr v)])
      | None \<Rightarrow> configure_from_env_loop env_vars items config)"

definition configure_from_env :: "world \<Rightarrow> (string, cval) dict \<Rightarrow> (string, cval) dict" where
  "configure_from_env w config = configure_from_env_loop (environ w) required_items config"

text \<open>The validation loop of \<open>__configure\<close>: the first required item that is missing
  raises.\<close>

fun validate :: "string list \<Rightarrow> (string, cval) dict \<Rightarrow> error + (string, cval) dict" where
  "validate [] config = Inr config"
| "validate (item # items) config =
     (if \<not> dict_in item config then Inl (KeyError (''Missing configuration item: '' @ item))
      else validate items config)"

text \<open>The three merging steps of \<open>__configure\<close>, on the configuration that
  \<open>__init__\<close> has built.\<close>

definition merge_sources ::
  "world \<Rightarrow> string option \<Rightarrow> (string, cval) dict \<Rightarrow> (string, cval) dict
     \<Rightarrow> error + (string, cval) dict" where
  "merge_sources w config_file args config =
     (case configure_from_file w config_file config of
        Inl e \<Rightarrow> Inl e
      | Inr c1 \<Rightarrow> Inr (dict_update (configure_from_env w c1) args))"

definition configure ::
  "world \<Rightarrow> string option \<Rightarrow> (string, cval) dict \<Rightarrow> (string, cval) dict
     \<Rightarrow> error + (string, cval) dict" where
  "configure w config_file args config =
     (case merge_sources w config_file args config of
        Inl e \<Rightarrow> Inl e
      | Inr merged \<Rightarrow> validate required_items merged)"

text \<open>\<open>Configurator(config_file, args)\<close>; the result is its \<open>configuration\<close>.\<close>

definition Configurator ::
  "world \<Rightarrow> string option \<Rightarrow> (string, cval) dict \<Rightarrow> error + (string, cval) dict" where
  "Configurator w config_file args = configure w config_file args (dict_update defaults args)"

text \<open>The mapping that validation sees: the merged sources.\<close>

definition merged_config ::
  "world \<Rightarrow> string option \<Rightarrow> (string, cval) dict \<Rightarrow> error + (string, cval) dict" where
  "merged_config w config_file args = merge_sources w config_file args (dict_update defaults args)"

section \<open>AppleAPI\<close>

text \<open>
  An instance: its identity (instances have no equality of their own, so the cache of the
  token generator tells them apart by identity) and the five attributes set by
  \<open>__init__\<close>, which nothing changes afterwards.
\<close>

record api =
  self_id :: nat
  api_base_url :: cval
  jwt_expire_sec :: cval
  issuer_id :: cval
  key_id :: cval
  privkey_path :: cval

definition AppleAPI_params :: "string list" where
  "AppleAPI_params = [''privkey_path'', ''key_id'', ''issuer_id'', ''jwt_expire_sec'', ''api_base_url'']"

text \<open>\<open>AppleAPI(**kwargs)\<close>: a keyword that is no parameter, or a parameter without a
  value, is a \<open>TypeError\<close> of the call.\<close>

definition AppleAPI :: "nat \<Rightarrow> (string, cval) dict \<Rightarrow> error + api" where
  "AppleAPI oid kwargs =
     (case filter (\<lambda>k. k \<notin> set AppleAPI_params) (map fst kwargs) of
        k # _ \<Rightarrow> Inl (TypeError (''unexpected keyword argument '' @ k))
      | [] \<Rightarrow>
          (case (dict_get kwargs ''privkey_path'', dict_get kwargs ''key_id'',
                 dict_get kwargs ''issuer_id'', dict_get kwargs ''jwt_expire_sec'',
                 dict_get kwargs ''api_base_url'') of
             (Some p, Some k, Some i, Some j, Some a) \<Rightarrow>
               Inr \<lparr>self_id = oid, api_base_url = a, jwt_expire_sec = j, issuer_id = i,
                    key_id = k, privkey_path = p\<rparr>
           | _ \<Rightarrow> Inl (TypeError ''missing required argument'')))"

text \<open>An argument with a default is either left out or passed.\<close>

datatype 'a arg = Omitted | Passed 'a

fun arg_or :: "'a \<Rightarrow> 'a arg \<Rightarrow> 'a" where
  "arg_or d Omitted = d"
| "arg_or d (Passed x) = x"

text \<open>
  The two \<open>headers={}\<close> defaults are two dictionaries created once, when the methods are
  defined; a call that leaves \<open>headers\<close> out receives a reference to that one object.
\<close>

definition signed_default_headers :: nat where
  "signed_default_headers = 0"

definition http_default_headers :: nat where
  "http_default_headers = 1"

definition http_verbs :: "string list" where
  "http_verbs = [''delete'', ''get'', ''head'', ''patch'', ''post'', ''put'']"

text \<open>\<open>__send_http_request\<close>. A header argument is \<open>None\<close> or a reference to a
  dictionary, which \<open>requests\<close> reads when the call is made.\<close>

definition send_http_request ::
  "world \<Rightarrow> string \<Rightarrow> string \<Rightarrow> string option \<Rightarrow> nat option arg \<Rightarrow> bool
     \<Rightarrow> (error + response) \<times> world" where
  "send_http_request w vb target bdy hdrs verify_ssl =
     (let request_kwargs = \<lparr>rq_verb = vb, rq_url = target, rq_verify = verify_ssl, rq_body = bdy,
            rq_headers = map_option (heap w) (arg_or (Some http_default_headers) hdrs)\<rparr>
      in if vb \<in> set http_verbs
         then (http w request_kwargs, w\<lparr>sent := sent w @ [request_kwargs]\<rparr>)
         else (Inl (ValueError ''Invalid HTTP verb.''), w))"

text \<open>\<open>__generate_jwt_token\<close>: the body of the method.\<close>

text \<open>\<open>int(time.time() + self.__jwt_expire_sec)\<close>: the integer is converted to a
  float, the two floats are added, the sum is truncated.\<close>

definition expiration :: "rat \<Rightarrow> cval \<Rightarrow> error + int" where
  "expiration t lifetime =
     (case lifetime of
        CInt n \<Rightarrow>
          (case float_of_int n of
             Inl e \<Rightarrow> Inl e
           | Inr f \<Rightarrow> int_of_float (float_add t f))
      | CStr s \<Rightarrow> Inl (TypeError ''unsupported operand type(s) for +''))"

definition jwt_headers :: "api \<Rightarrow> (string, cval) dict" where
  "jwt_headers a = [(''alg'', CStr ''ES256''), (''kid'', key_id a), (''typ'', CStr ''JWT'')]"

definition jwt_payload :: "api \<Rightarrow> int \<Rightarrow> (string, cval) dict" where
  "jwt_payload a ex = [(''iss'', issuer_id a), (''exp'', CInt ex), (''aud'', CStr ''appstoreconnect-v1'')]"

definition generate_jwt_token_body :: "world \<Rightarrow> api \<Rightarrow> error + string" where
  "generate_jwt_token_body w a =
     (case expiration (now w) (jwt_expire_sec a) of
        Inl e \<Rightarrow> Inl e
      | Inr ex \<Rightarrow>
          (case read_path w (privkey_path a) of
             Inl e \<Rightarrow> Inl e
           | Inr private_key \<Rightarrow>
               jwt_encode w (jwt_payload a ex) private_key ''ES256'' (jwt_headers a)))"

text \<open>
  The method under \<open>lru_cache(1)\<close>: a call for the instance of the cached entry returns
  the cached token and does nothing else; any other call runs the body, and a result (not
  an exception) replaces the entry.
\<close>

definition cache_hit :: "world \<Rightarrow> api \<Rightarrow> string option" where
  "cache_hit w a =
     (case token_cache w of
        None \<Rightarrow> None
      | Some (k, tok) \<Rightarrow> if k = self_id a then Some tok else None)"

definition generate_jwt_token :: "world \<Rightarrow> api \<Rightarrow> (error + string) \<times> world" where
  "generate_jwt_token w a =
     (case cache_hit w a of
        Some tok \<Rightarrow> (Inr tok, w)
      | None \<Rightarrow>
          (case generate_jwt_token_body w a of
             Inl e \<Rightarrow> (Inl e, w)
           | Inr tok \<Rightarrow> (Inr tok, w\<lparr>token_cache := Some (self_id a, tok)\<rparr>)))"

text \<open>\<open>__send_signed_http_request\<close>: \<open>headers.update\<close> changes the dictionary that
  the argument refers to.\<close>

definition authorization :: "string \<Rightarrow> (string, string) dict" where
  "authorization token = [(''Authorization'', ''Bearer '' @ token)]"

definition send_signed_http_request ::
  "world \<Rightarrow> api \<Rightarrow> string \<Rightarrow> string \<Rightarrow> string option \<Rightarrow> nat option arg \<Rightarrow> bool
     \<Rightarrow> (error + response) \<times> world" where
  "send_signed_http_request w a vb target bdy hdrs verify_ssl =
     (case generate_jwt_token w a of
        (Inl e, w1) \<Rightarrow> (Inl e, w1)
      | (Inr token, w1) \<Rightarrow>
          (case arg_or (Some signed_default_headers) hdrs of
             None \<Rightarrow> (Inl (AttributeError ''update''), w1)
           | Some r \<Rightarrow>
               send_http_request
                 (w1\<lparr>heap := (heap w1)(r := dict_update (heap w1 r) (authorization token))\<rparr>)
                 vb target bdy (Passed (Some r)) verify_ssl))"

definition request_in_review_report ::
  "world \<Rightarrow> api \<Rightarrow> string option \<Rightarrow> (error + response) \<times> world" where
  "request_in_review_report w a rptg_day =
     (let path_part = ''/reports/in-review/v1?rptg_date='' @ str_opt rptg_day;
          report_url = str_cval (api_base_url a) @ path_part
      in send_signed_http_request w a ''get'' report_url None Omitted True)"

section \<open>OuptutDataLayer\<close>

text \<open>
  \<open>__write_file\<close>: \<open>open(file_name, "w")\<close> raises and changes nothing, or creates
  the file or empties the one that is there; then the text is written and the file is
  closed. When that raises, the file holds the characters written so far.
\<close>

definition write_file :: "world \<Rightarrow> string \<Rightarrow> string \<Rightarrow> (error + unit) \<times> world" where
  "write_file w file_name content =
     (if \<not> writable w file_name then (Inl (OSError file_name), w)
      else
        (let opened = w\<lparr>files := (files w)(file_name \<mapsto> [])\<rparr> in
         case write_fails opened file_name content of
           Some (e, n) \<Rightarrow> (Inl e, opened\<lparr>files := (files opened)(file_name \<mapsto> take n content)\<rparr>)
         | None \<Rightarrow> (Inr (), opened\<lparr>files := (files opened)(file_name \<mapsto> content)\<rparr>)))"

definition write_in_review_report :: "world \<Rightarrow> string option \<Rightarrow> string \<Rightarrow> (error + unit) \<times> world" where
  "write_in_review_report w rprt_date bdy =
     (let file_name = ''in-review-'' @ str_opt rprt_date @ ''.tsv'' in write_file w file_name bdy)"

section \<open>The command line\<close>

text \<open>
  What \<open>parse_args\<close> returns: \<open>--config\<close> has the default \<open>config.json\<close>, \<open>--out\<close>
  the default \<open>None\<close>, and \<open>--get-in-review\<close>, declared without a default, is
  \<open>None\<close> when the flag is not given.
\<close>

record namespace =
  config :: string
  out :: "string option"
  get_in_review :: "string option"

text \<open>How the process ends: \<open>exit(n)\<close>, an exception nobody catches, or the end of the
  script.\<close>

datatype outcome = Exit int | Uncaught error | Finished

text \<open>\<open>x is not False\<close> for an \<open>x\<close> that is \<open>None\<close> or a string.\<close>

fun is_not_False :: "string option \<Rightarrow> bool" where
  "is_not_False None = True"
| "is_not_False (Some s) = True"

definition operation_ct :: "namespace \<Rightarrow> int" where
  "operation_ct ns = (if is_not_False (get_in_review ns) then 0 + 1 else 0)"

text \<open>The script under \<open>__main__\<close>, after the arguments are parsed. The one instance
  of \<open>AppleAPI\<close> is the object 0.\<close>

definition main :: "world \<Rightarrow> namespace \<Rightarrow> outcome \<times> world" where
  "main w ns =
     (let initial_args = [] in
      if operation_ct ns > 1 \<or> operation_ct ns < 1
      then (Exit 1, w\<lparr>stdout := stdout w @ [Print ''Please specify exactly one operation.'', PrintUsage]\<rparr>)
      else
        (case Configurator w (Some (config ns)) initial_args of
           Inl e \<Rightarrow> (Uncaught e, w)
         | Inr configuration \<Rightarrow>
             (case AppleAPI 0 configuration of
                Inl e \<Rightarrow> (Uncaught e, w)
              | Inr a \<Rightarrow>
                  if is_not_False (get_in_review ns)
                  then
                    (case request_in_review_report w a (get_in_review ns) of
                       (Inl e, w1) \<Rightarrow> (Uncaught e, w1)
                     | (Inr results, w1) \<Rightarrow>
                         if fst results = 200
                         then
                           (case write_in_review_report w1 (get_in_review ns) (snd (snd results)) of
                              (Inl e, w2) \<Rightarrow> (Uncaught e, w2)
                            | (Inr u, w2) \<Rightarrow> (Finished, w2))
                         else (Uncaught (RuntimeError (''API returned an HTTP '' @ str_int (fst results) @ ''.'')), w1))
                  else (Finished, w))))"

section \<open>Callers and sample data used in the statements\<close>



text \<open>
  A sample installation: a configuration file with the three settings that have no
  default, a key file, a token encoder whose result shows the expiration it was given, and
  a server that knows the report of one day only.
\<close>

definition example_settings :: "(string, cval) dict" where
  "example_settings = [(''issuer_id'', CStr ''ISSUER''), (''key_id'', CStr ''KEYID''),
                       (''privkey_path'', CStr ''AuthKey.p8'')]"

definition example_world :: world where
  "example_world =
     \<lparr>files = [''config.json'' \<mapsto> ''settings'', ''AuthKey.p8'' \<mapsto> ''PRIVATE KEY''],
      fds = Map.empty,
      writable = (\<lambda>name. True),
      write_fails = (\<lambda>name content. None),
      environ = Map.empty,
      now = 1668038400.5,
      json_loads = (\<lambda>s. if s = ''settings'' then Inr example_settings else Inl (JSONDecodeError s)),
      jwt_encode = (\<lambda>payload key alg hdrs.
         case dict_get payload ''exp'' of
           Some v \<Rightarrow> Inr (''jwt.'' @ str_cval v)
         | None \<Rightarrow> Inl (PyJWTError ''exp'')),
      http = (\<lambda>rq.
         if rq_url rq = ''https://musicanalytics.apple.com/reports/in-review/v1?rptg_date=2022-11-10''
         then Inr (200, [(''Content-Type'', ''text/tab-separated-values'')], ''a b c'')
         else Inr (404, [], ''Not Found'')),
      heap = (\<lambda>r. []),
      token_cache = None,
      sent = [],
      stdout = []\<rparr>"

definition example_api :: api where
  "example_api =
     \<lparr>self_id = 0, api_base_url = CStr ''https://musicanalytics.apple.com'',
      jwt_expire_sec = CInt 1200, issuer_id = CStr ''ISSUER'', key_id = CStr ''KEYID'',
      privkey_path = CStr ''AuthKey.p8''\<rparr>"


definition long_lived_api :: api where
  "long_lived_api = example_api\<lparr>jwt_expire_sec := CInt 9007199254740993\<rparr>"

text \<open>The same installation started with two environment variables set, one of them to
  the empty string.\<close>

definition env_world :: world where
  "env_world = example_world\<lparr>environ := [''KEY_ID'' \<mapsto> ''ENVKEY'', ''ISSUER_ID'' \<mapsto> []]\<rparr>"

text \<open>Three command lines: one without \<open>--get-in-review\<close>, one that asks for the
  day the server knows, one that asks for a day it does not know.\<close>

definition no_flag :: namespace where
  "no_flag = \<lparr>config = ''config.json'', out = None, get_in_review = None\<rparr>"

definition known_day :: namespace where
  "known_day = \<lparr>config = ''config.json'', out = None, get_in_review = Some ''2022-11-10''\<rparr>"

definition unknown_day :: namespace where
  "unknown_day = \<lparr>config = ''config.json'', out = None, get_in_review = Some ''1999-12-31''\<rparr>"

section \<open>Dictionaries\<close>

lemma dict_get_set: "dict_get (dict_set k v d) k' = (if k' = k then Some v else dict_get d k')"
  by (induction d) (auto simp: dict_get_def)

lemma dict_get_update:
  "dict_get (dict_update d other) k =
     (case map_of (rev other) k of Some v \<Rightarrow> Some v | None \<Rightarrow> dict_get d k)"
  unfolding dict_update_def
  by (induction other arbitrary: d) (auto simp: dict_get_set split: option.splits)



section \<open>Configuration resolution\<close>


lemma validate_Inr: "validate items cfg = Inr c \<longleftrightarrow> c = cfg \<and> (\<forall>i\<in>set items. dict_in i cfg)"
  by (induction items) auto

lemma validate_Inl:
  "validate items cfg = Inl e \<Longrightarrow>
     \<exists>k\<in>set items. \<not> dict_in k cfg \<and> e = KeyError (''Missing configuration item: '' @ k)"
  by (induction items) (auto split: if_splits)



lemma Configurator_merged:
  "Configurator w cf args =
     (case merged_config w cf args of Inl e \<Rightarrow> Inl e | Inr m \<Rightarrow> validate required_items m)"
  by (simp add: Configurator_def configure_def merged_config_def)

lemma upper_required:
  "upper ''api_base_url'' = ''API_BASE_URL''"
  "upper ''issuer_id'' = ''ISSUER_ID''"
  "upper ''jwt_expire_sec'' = ''JWT_EXPIRE_SEC''"
  "upper ''key_id'' = ''KEY_ID''"
  "upper ''privkey_path'' = ''PRIVKEY_PATH''"
  by code_simp+


lemma example_config:
  "Configurator example_world (Some ''config.json'') [] = Inr (defaults @ example_settings)"
  by (simp add: Configurator_def configure_def merge_sources_def configure_from_file_def
      load_config_file_def read_file_def example_world_def configure_from_env_def
      required_items_def dict_update_def defaults_def example_settings_def dict_in_def dict_get_def)

lemma env_config:
  "Configurator env_world (Some ''config.json'') [] =
     Inr [(''api_base_url'', CStr ''https://musicanalytics.apple.com''),
          (''jwt_expire_sec'', CInt 1200), (''issuer_id'', CStr []),
          (''key_id'', CStr ''ENVKEY''), (''privkey_path'', CStr ''AuthKey.p8'')]"
  by (simp add: Configurator_def configure_def merge_sources_def configure_from_file_def
      load_config_file_def read_file_def example_world_def env_world_def configure_from_env_def
      required_items_def dict_update_def defaults_def example_settings_def dict_in_def
      dict_get_def upper_required)



text \<open>
  C5. Once the sources are merged, resolution succeeds with the merged mapping when all
  five required keys are in it; when one is absent, resolution fails with a
  \<open>KeyError\<close> whose message names a required key that is absent.
\<close>

theorem missing_key_rejected:
  assumes "merged_config w cf args = Inr m"
  shows "if \<forall>k\<in>set required_items. dict_in k m
         then Configurator w cf args = Inr m
         else \<exists>k\<in>set required_items. \<not> dict_in k m \<and>
                Configurator w cf args = Inl (KeyError (''Missing configuration item: '' @ k))"
proof (cases "\<forall>k\<in>set required_items. dict_in k m")
  case True
  then show ?thesis by (simp add: Configurator_merged assms validate_Inr)
next
  case False
  then have "\<not> (\<exists>c. validate required_items m = Inr c)" by (simp add: validate_Inr)
  then obtain e where e: "validate required_items m = Inl e"
    by (cases "validate required_items m") auto
  from validate_Inl [OF e] False show ?thesis
    by (auto simp: Configurator_merged assms e)
qed

theorem missing_key_rejected_witness:
  "merged_config example_world None [] = Inr defaults \<and>
   \<not> dict_in ''issuer_id'' defaults \<and>
   (\<exists>k\<in>set required_items. \<not> dict_in k defaults \<and>
      Configurator example_world None [] = Inl (KeyError (''Missing configuration item: '' @ k)))"
proof -
  have h: "merged_config example_world None [] = Inr defaults"
    by (simp add: merged_config_def merge_sources_def configure_from_file_def
        configure_from_env_def required_items_def dict_update_def example_world_def)
  have n: "\<not> dict_in ''issuer_id'' defaults"
    by (simp add: dict_in_def dict_get_def defaults_def)
  then have "\<not> (\<forall>k\<in>set required_items. dict_in k defaults)"
    by (auto simp: required_items_def)
  with missing_key_rejected [OF h]
  have "\<exists>k\<in>set required_items. \<not> dict_in k defaults \<and>
      Configurator example_world None [] = Inl (KeyError (''Missing configuration item: '' @ k))"
    by (simp only: if_False)
  with h n show ?thesis by blast
qed

text \<open>
  C6, as the code has it. A configuration that resolution accepts has all five required
  keys, and it is the merged mapping; the values are not looked at, so a key that is set
  to the empty string is accepted. The claim that an empty value is rejected fails: with
  \<open>ISSUER_ID\<close> set to the empty string in the environment, resolution accepts a
  configuration whose \<open>issuer_id\<close> is empty.
\<close>

theorem accepted_has_required_keys:
  assumes "Configurator w cf args = Inr c"
  shows "(\<forall>k\<in>set required_items. dict_in k c) \<and> merged_config w cf args = Inr c"
  using assms by (auto simp: Configurator_merged validate_Inr split: sum.splits)

theorem accepted_has_required_keys_witness:
  "Configurator example_world (Some ''config.json'') [] = Inr (defaults @ example_settings) \<and>
   dict_in ''api_base_url'' (defaults @ example_settings) \<and>
   dict_in ''issuer_id'' (defaults @ example_settings) \<and>
   dict_in ''jwt_expire_sec'' (defaults @ example_settings) \<and>
   dict_in ''key_id'' (defaults @ example_settings) \<and>
   dict_in ''privkey_path'' (defaults @ example_settings) \<and>
   merged_config example_world (Some ''config.json'') [] = Inr (defaults @ example_settings)"
  using accepted_has_required_keys [OF example_config] example_config
  by (simp add: required_items_def)

theorem empty_value_accepted_counterexample:
  "Configurator env_world (Some ''config.json'') [] =
     Inr [(''api_base_url'', CStr ''https://musicanalytics.apple.com''),
          (''jwt_expire_sec'', CInt 1200), (''issuer_id'', CStr []),
          (''key_id'', CStr ''ENVKEY''), (''privkey_path'', CStr ''AuthKey.p8'')] \<and>
   dict_get [(''api_base_url'', CStr ''https://musicanalytics.apple.com''),
          (''jwt_expire_sec'', CInt 1200), (''issuer_id'', CStr []),
          (''key_id'', CStr ''ENVKEY''), (''privkey_path'', CStr ''AuthKey.p8'')] ''issuer_id''
     = Some (CStr [])"
  by (simp add: env_config dict_get_def)

section \<open>Float arithmetic\<close>

lemma bit_length_le: "n < 2 ^ k \<Longrightarrow> bit_length n \<le> k"
proof (induction k arbitrary: n)
  case 0
  then show ?case by (simp add: bit_length.simps)
next
  case (Suc k)
  show ?case
  proof (cases "n = 0")
    case True
    then show ?thesis by (simp add: bit_length.simps)
  next
    case False
    from Suc.prems have "n div 2 < 2 ^ k" by simp
    then have "bit_length (n div 2) \<le> k" by (rule Suc.IH)
    with False show ?thesis by (simp add: bit_length.simps [of n])
  qed
qed

lemma bit_length_gt: "2 ^ k \<le> n \<Longrightarrow> k < bit_length n"
proof (induction k arbitrary: n)
  case 0
  then show ?case by (simp add: bit_length.simps [of n])
next
  case (Suc k)
  have "0 < (2::nat) ^ Suc k" by simp
  with Suc.prems have n: "n \<noteq> 0" by linarith
  from Suc.prems have "2 ^ k \<le> n div 2" by simp
  then have "k < bit_length (n div 2)" by (rule Suc.IH)
  with n show ?case by (simp add: bit_length.simps [of n])
qed

lemma bit_length_eq: "2 ^ k \<le> n \<Longrightarrow> n < 2 ^ Suc k \<Longrightarrow> bit_length n = Suc k"
  using bit_length_le [of n "Suc k"] bit_length_gt [of k n] by simp

lemma floor_abs_bounds:
  fixes x :: rat
  shows "\<bar>x\<bar> < 2 ^ p \<Longrightarrow> nat \<lfloor>\<bar>x\<bar>\<rfloor> < 2 ^ p"
    and "2 ^ k \<le> \<bar>x\<bar> \<Longrightarrow> 2 ^ k \<le> nat \<lfloor>\<bar>x\<bar>\<rfloor>"
proof -
  assume a: "\<bar>x\<bar> < 2 ^ p"
  have "\<lfloor>\<bar>x\<bar>\<rfloor> < 2 ^ p"
    using a by (simp add: floor_less_iff)
  then show "nat \<lfloor>\<bar>x\<bar>\<rfloor> < 2 ^ p"
    by (simp add: nat_less_iff)
next
  assume a: "2 ^ k \<le> \<bar>x\<bar>"
  have "(2::int) ^ k \<le> \<lfloor>\<bar>x\<bar>\<rfloor>"
    using a by (simp add: le_floor_iff)
  then show "2 ^ k \<le> nat \<lfloor>\<bar>x\<bar>\<rfloor>"
    by (simp add: le_nat_iff)
qed

lemma binade_le: "\<bar>x\<bar> < 2 ^ p \<Longrightarrow> 1 \<le> p \<Longrightarrow> binade x \<le> int p - 1"
proof (cases "1 \<le> \<bar>x\<bar>")
  case True
  assume "\<bar>x\<bar> < 2 ^ p"
  then have "bit_length (nat \<lfloor>\<bar>x\<bar>\<rfloor>) \<le> p"
    by (intro bit_length_le floor_abs_bounds)
  with True show ?thesis by (simp add: binade_def)
next
  case False
  assume "1 \<le> p"
  with False show ?thesis by (simp add: binade_def)
qed

lemma binade_eq: "2 ^ k \<le> \<bar>x\<bar> \<Longrightarrow> \<bar>x\<bar> < 2 ^ Suc k \<Longrightarrow> binade x = int k"
proof -
  assume a: "2 ^ k \<le> \<bar>x\<bar>" and b: "\<bar>x\<bar> < 2 ^ Suc k"
  have "(1::rat) \<le> 2 ^ k" by simp
  with a have one: "1 \<le> \<bar>x\<bar>" by linarith
  have "bit_length (nat \<lfloor>\<bar>x\<bar>\<rfloor>) = Suc k"
    using a b by (intro bit_length_eq floor_abs_bounds)
  with one show ?thesis by (simp add: binade_def)
qed

lemma ulp_form:
  assumes "\<bar>x\<bar> < 2 ^ p" and "1 \<le> p" and "p \<le> 53"
  shows "\<exists>k. ulp x = 1 / 2 ^ (53 - p + k)"
proof -
  let ?e = "max (binade x) (- 1022) - 52"
  have "binade x \<le> int p - 1" using assms(1) assms(2) by (rule binade_le)
  then have e: "?e \<le> int p - 53" using assms(3) by simp
  then have neg: "?e \<le> 0" using assms(3) by simp
  define k where "k = nat (- ?e) - (53 - p)"
  have "nat (- ?e) = 53 - p + k"
    using e assms(3) unfolding k_def by simp
  moreover have "ulp x = 1 / 2 ^ nat (- ?e)"
  proof (cases "?e = 0")
    case True
    then show ?thesis by (simp add: ulp_def pow2_def)
  next
    case False
    with neg have "\<not> 0 \<le> ?e" by simp
    then show ?thesis by (simp add: ulp_def pow2_def)
  qed
  ultimately show ?thesis by metis
qed

lemma round_half_even_int [simp]: "round_half_even (of_int z) = z"
  by (simp add: round_half_even_def)

lemma round_half_even_ge: "of_int m \<le> y \<Longrightarrow> m \<le> round_half_even y"
proof -
  assume "of_int m \<le> y"
  then have "m \<le> \<lfloor>y\<rfloor>" by (simp add: le_floor_iff)
  then show ?thesis by (simp add: round_half_even_def Let_def)
qed

lemma round_half_even_le: "y \<le> of_int m \<Longrightarrow> round_half_even y \<le> m"
proof (cases "y = of_int \<lfloor>y\<rfloor>")
  case True
  assume "y \<le> of_int m"
  then have "\<lfloor>y\<rfloor> \<le> m" by (metis True of_int_le_iff)
  moreover have "round_half_even y = \<lfloor>y\<rfloor>" by (metis True round_half_even_int)
  ultimately show ?thesis by simp
next
  case False
  assume a: "y \<le> of_int m"
  have "of_int \<lfloor>y\<rfloor> < y" using False by (metis of_int_floor_le order_le_less)
  with a have "of_int \<lfloor>y\<rfloor> < (of_int m :: rat)" by linarith
  then have "\<lfloor>y\<rfloor> < m" by simp
  then show ?thesis by (simp add: round_half_even_def Let_def)
qed

lemma round_double_exact:
  assumes "x * 2 ^ (53 - p) = of_int m" and "\<bar>x\<bar> < 2 ^ p" and "1 \<le> p" and "p \<le> 53"
  shows "round_double x = x"
proof (cases "x = 0")
  case True
  then show ?thesis by (simp add: round_double_def)
next
  case False
  from ulp_form [OF assms(2) assms(3) assms(4)] obtain k where u: "ulp x = 1 / 2 ^ (53 - p + k)"
    by blast
  have "x / ulp x = x * 2 ^ (53 - p) * 2 ^ k" by (simp add: u power_add)
  also have "\<dots> = of_int (m * 2 ^ k)" by (simp add: assms(1))
  finally have "round_half_even (x / ulp x) = m * 2 ^ k" by (simp only: round_half_even_int)
  then have "round_double x = of_int (m * 2 ^ k) * ulp x"
    using False by (simp add: round_double_def)
  also have "\<dots> = (x * 2 ^ (53 - p) * 2 ^ k) / 2 ^ (53 - p + k)"
    by (simp add: u assms(1))
  also have "\<dots> = x" by (simp add: power_add)
  finally show ?thesis .
qed

lemma round_double_bounds:
  assumes "\<bar>x\<bar> < 2 ^ 53"
  shows "of_int \<lfloor>x\<rfloor> \<le> round_double x" and "round_double x \<le> of_int \<lceil>x\<rceil>"
proof -
  have both: "of_int \<lfloor>x\<rfloor> \<le> round_double x \<and> round_double x \<le> of_int \<lceil>x\<rceil>"
  proof (cases "x = 0")
    case True
    then show ?thesis by (simp add: round_double_def)
  next
    case False
    from ulp_form [OF assms, of] obtain k where u: "ulp x = 1 / 2 ^ (53 - 53 + k)"
      by fastforce
    then have u: "ulp x = 1 / 2 ^ k" by simp
    have r: "round_double x = of_int (round_half_even (x * 2 ^ k)) / 2 ^ k"
      using False by (simp add: round_double_def u)
    have "of_int (\<lfloor>x\<rfloor> * 2 ^ k) \<le> x * 2 ^ k" by simp
    then have "\<lfloor>x\<rfloor> * 2 ^ k \<le> round_half_even (x * 2 ^ k)" by (rule round_half_even_ge)
    then have "(of_int (\<lfloor>x\<rfloor> * 2 ^ k) :: rat) \<le> of_int (round_half_even (x * 2 ^ k))"
      by (simp only: of_int_le_iff)
    then have lo: "of_int \<lfloor>x\<rfloor> \<le> round_double x"
      by (simp add: r pos_le_divide_eq)
    have "x * 2 ^ k \<le> of_int (\<lceil>x\<rceil> * 2 ^ k)" by simp
    then have "round_half_even (x * 2 ^ k) \<le> \<lceil>x\<rceil> * 2 ^ k" by (rule round_half_even_le)
    then have "(of_int (round_half_even (x * 2 ^ k)) :: rat) \<le> of_int (\<lceil>x\<rceil> * 2 ^ k)"
      by (simp only: of_int_le_iff)
    then have hi: "round_double x \<le> of_int \<lceil>x\<rceil>"
      by (simp add: r pos_divide_le_eq)
    from lo hi show ?thesis by blast
  qed
  from both show "of_int \<lfloor>x\<rfloor> \<le> round_double x" by blast
  from both show "round_double x \<le> of_int \<lceil>x\<rceil>" by blast
qed

lemma trunc_near:
  fixes x :: rat
  assumes "of_int \<lfloor>x\<rfloor> \<le> r" and "r \<le> of_int \<lceil>x\<rceil>"
  shows "\<bar>of_int (trunc r) - x\<bar> < 1"
proof (cases "x = of_int \<lfloor>x\<rfloor>")
  case True
  then have "\<lceil>x\<rceil> = \<lfloor>x\<rfloor>" by (metis ceiling_of_int)
  with assms have "r = of_int \<lfloor>x\<rfloor>" by simp
  then have "trunc r = \<lfloor>x\<rfloor>" by (simp add: trunc_def)
  with True show ?thesis by simp
next
  case False
  then have c: "\<lceil>x\<rceil> = \<lfloor>x\<rfloor> + 1" by (metis ceiling_altdef)
  have lo: "\<lfloor>x\<rfloor> \<le> \<lfloor>r\<rfloor>" using assms(1) by (simp add: le_floor_iff)
  have hi: "\<lceil>r\<rceil> \<le> \<lfloor>x\<rfloor> + 1" using assms(2) c by (simp add: ceiling_le_iff)
  have fc: "\<lfloor>r\<rfloor> \<le> \<lceil>r\<rceil>" by (rule floor_le_ceiling)
  have t: "\<lfloor>x\<rfloor> \<le> trunc r \<and> trunc r \<le> \<lfloor>x\<rfloor> + 1"
  proof (cases "0 \<le> r")
    case True
    then have "trunc r = \<lfloor>r\<rfloor>" by (simp add: trunc_def)
    with lo hi fc show ?thesis by - (rule conjI, linarith, linarith)
  next
    case False
    then have "trunc r = \<lceil>r\<rceil>" by (simp add: trunc_def)
    with lo hi fc show ?thesis by - (rule conjI, linarith, linarith)
  qed
  have a: "of_int \<lfloor>x\<rfloor> < x" using False by (metis of_int_floor_le order_le_less)
  have b: "x < of_int \<lfloor>x\<rfloor> + 1" by linarith
  from t have "trunc r = \<lfloor>x\<rfloor> \<or> trunc r = \<lfloor>x\<rfloor> + 1" by linarith
  then show ?thesis
  proof
    assume "trunc r = \<lfloor>x\<rfloor>"
    then have "(of_int (trunc r) :: rat) = of_int \<lfloor>x\<rfloor>" by (simp only:)
    with a b show ?thesis by linarith
  next
    assume "trunc r = \<lfloor>x\<rfloor> + 1"
    then have "(of_int (trunc r) :: rat) = of_int \<lfloor>x\<rfloor> + 1" by (simp only: of_int_add of_int_1)
    with a b show ?thesis by linarith
  qed
qed

lemma not_inf: "\<bar>x\<bar> \<le> 2 ^ 53 \<Longrightarrow> \<not> is_inf x"
proof -
  assume a: "\<bar>x\<bar> \<le> 2 ^ 53"
  have "(2::rat) ^ 53 < 2 ^ 1024" by (rule power_strict_increasing) simp_all
  with a show ?thesis by (simp add: is_inf_def pow2_def)
qed

lemma not_inf_54: "\<bar>x\<bar> \<le> 2 ^ 54 \<Longrightarrow> \<not> is_inf x"
proof -
  assume a: "\<bar>x\<bar> \<le> 2 ^ 54"
  have "(2::rat) ^ 54 < 2 ^ 1024" by (rule power_strict_increasing) simp_all
  with a show ?thesis by (simp add: is_inf_def pow2_def)
qed

lemma float_of_int_exact: "\<bar>L\<bar> < 2 ^ 53 \<Longrightarrow> float_of_int L = Inr (of_int L)"
proof -
  assume a: "\<bar>L\<bar> < 2 ^ 53"
  then have "(of_int \<bar>L\<bar> :: rat) < of_int (2 ^ 53)" by (simp only: of_int_less_iff)
  then have b: "\<bar>of_int L :: rat\<bar> < 2 ^ 53" by simp
  have "round_double (of_int L) = of_int L"
    by (rule round_double_exact [where p = 53 and m = L]) (use b in simp_all)
  moreover have "\<not> is_inf (of_int L)" using b by (intro not_inf) simp
  ultimately show ?thesis by (simp add: float_of_int_def)
qed

lemma expiration_near:
  assumes "\<bar>L\<bar> < 2 ^ 53" and "\<bar>t + of_int L\<bar> < 2 ^ 53"
  shows "\<exists>ex. expiration t (CInt L) = Inr ex \<and> \<bar>of_int ex - (t + of_int L)\<bar> < 1"
proof -
  let ?x = "t + of_int L"
  let ?s = "round_double ?x"
  have lo: "of_int \<lfloor>?x\<rfloor> \<le> ?s" and hi: "?s \<le> of_int \<lceil>?x\<rceil>"
    using round_double_bounds [OF assms(2)] by blast+
  have "of_int (- (2 ^ 53)) \<le> ?x" using assms(2) by simp
  then have "- (2 ^ 53) \<le> \<lfloor>?x\<rfloor>" by (simp only: le_floor_iff)
  then have "(of_int (- (2 ^ 53)) :: rat) \<le> of_int \<lfloor>?x\<rfloor>" by (simp only: of_int_le_iff)
  with lo have l: "- (2 ^ 53) \<le> ?s" by simp
  have "?x \<le> of_int (2 ^ 53)" using assms(2) by simp
  then have "\<lceil>?x\<rceil> \<le> 2 ^ 53" by (simp only: ceiling_le_iff)
  then have "(of_int \<lceil>?x\<rceil> :: rat) \<le> of_int (2 ^ 53)" by (simp only: of_int_le_iff)
  with hi have h: "?s \<le> 2 ^ 53" by simp
  from l h have "\<bar>?s\<bar> \<le> 2 ^ 53" by (simp add: abs_le_iff)
  then have n: "\<not> is_inf ?s" by (rule not_inf)
  have e: "expiration t (CInt L) = Inr (trunc ?s)"
    using n by (simp add: expiration_def float_of_int_exact [OF assms(1)] float_add_def
        int_of_float_def)
  have "\<bar>of_int (trunc ?s) - ?x\<bar> < 1" using lo hi by (rule trunc_near)
  with e show ?thesis by blast
qed

lemma expiration_exact:
  assumes "\<bar>L\<bar> < 2 ^ 53" and "\<bar>t + of_int L\<bar> < 2 ^ 53"
    and "round_double (t + of_int L) = t + of_int L"
  shows "expiration t (CInt L) = Inr (trunc (t + of_int L))"
proof -
  have "\<not> is_inf (t + of_int L)" using assms(2) by (intro not_inf) simp
  then show ?thesis
    by (simp add: expiration_def float_of_int_exact [OF assms(1)] float_add_def
        int_of_float_def assms(3))
qed

lemma round_half_even_down:
  "of_int f \<le> y \<Longrightarrow> y < of_int f + 1 / 2 \<Longrightarrow> round_half_even y = f"
proof -
  assume a: "of_int f \<le> y" and b: "y < of_int f + 1 / 2"
  have "\<lfloor>y\<rfloor> = f" using a b by (simp add: floor_eq_iff)
  then show ?thesis using b by (simp add: round_half_even_def)
qed

lemma round_half_even_tie:
  "y = of_int f + 1 / 2 \<Longrightarrow> even f \<Longrightarrow> round_half_even y = f"
proof -
  assume a: "y = of_int f + 1 / 2" and e: "even f"
  have "\<lfloor>y\<rfloor> = f" using a by (simp add: floor_eq_iff)
  then show ?thesis using a e by (simp add: round_half_even_def)
qed

lemma ulp_53: "2 ^ 53 \<le> \<bar>x\<bar> \<Longrightarrow> \<bar>x\<bar> < 2 ^ 54 \<Longrightarrow> ulp x = 2"
proof -
  assume a: "2 ^ 53 \<le> \<bar>x\<bar>" and b: "\<bar>x\<bar> < 2 ^ 54"
  have "binade x = int 53" using a b by (intro binade_eq) simp_all
  then show ?thesis by (simp add: ulp_def pow2_def)
qed

section \<open>The token generator\<close>

lemma generate_jwt_token_keeps:
  assumes "generate_jwt_token w a = (r, w1)"
  shows "heap w1 = heap w" and "http w1 = http w" and "sent w1 = sent w"
    and "files w1 = files w" and "writable w1 = writable w" and "stdout w1 = stdout w"
    and "write_fails w1 = write_fails w"
  using assms by (auto simp: generate_jwt_token_def split: option.splits sum.splits)

lemma generate_jwt_token_cached:
  "generate_jwt_token w a = (Inr tok, w1) \<Longrightarrow> cache_hit w1 a = Some tok"
  by (auto simp: generate_jwt_token_def cache_hit_def split: option.splits sum.splits if_splits)

lemma generate_jwt_token_hit:
  "cache_hit w a = Some tok \<Longrightarrow> generate_jwt_token w a = (Inr tok, w)"
  by (simp add: generate_jwt_token_def)




lemma str_int_examples:
  "str_int 1668039600 = ''1668039600''"
  "str_int 1668041200 = ''1668041200''"
  "str_int 1668051200 = ''1668051200''"
  "str_int 1700001200 = ''1700001200''"
  "str_int 404 = ''404''"
  by (simp_all add: str_int_def str_nat.simps digit_char_def)

text \<open>The sample clock shows 1668038400.5, the rational \<open>3336076801 / 2\<close>.\<close>

lemma example_expirations:
  "expiration (3336076801 / 2) (CInt 1200) = Inr 1668039600"
  "expiration 1668040000 (CInt 1200) = Inr 1668041200"
  "expiration 1668050000 (CInt 1200) = Inr 1668051200"
  "expiration 1700000000 (CInt 1200) = Inr 1700001200"
proof -
  have r: "round_double (3336079201 / 2) = 3336079201 / 2"
    by (rule round_double_exact [where p = 52 and m = 3336079201]) simp_all
  have t: "trunc (3336079201 / 2) = 1668039600"
    by (simp add: trunc_def floor_eq_iff)
  have "expiration (3336076801 / 2) (CInt 1200) = Inr (trunc (3336076801 / 2 + of_int 1200))"
    by (rule expiration_exact) (simp_all add: r)
  then show "expiration (3336076801 / 2) (CInt 1200) = Inr 1668039600"
    by (simp add: t)
  have r: "round_double 1668041200 = 1668041200"
    by (rule round_double_exact [where p = 53 and m = 1668041200]) simp_all
  have "expiration 1668040000 (CInt 1200) = Inr (trunc (1668040000 + of_int 1200))"
    by (rule expiration_exact) (simp_all add: r)
  then show "expiration 1668040000 (CInt 1200) = Inr 1668041200"
    by (simp add: trunc_def)
  have r: "round_double 1668051200 = 1668051200"
    by (rule round_double_exact [where p = 53 and m = 1668051200]) simp_all
  have "expiration 1668050000 (CInt 1200) = Inr (trunc (1668050000 + of_int 1200))"
    by (rule expiration_exact) (simp_all add: r)
  then show "expiration 1668050000 (CInt 1200) = Inr 1668051200"
    by (simp add: trunc_def)
  have r: "round_double 1700001200 = 1700001200"
    by (rule round_double_exact [where p = 53 and m = 1700001200]) simp_all
  have "expiration 1700000000 (CInt 1200) = Inr (trunc (1700000000 + of_int 1200))"
    by (rule expiration_exact) (simp_all add: r)
  then show "expiration 1700000000 (CInt 1200) = Inr 1700001200"
    by (simp add: trunc_def)
qed

text \<open>With a lifetime of \<open>2^53 + 1\<close> seconds the conversion of the lifetime and the
  addition both round: the expiration is 1.5 seconds before the exact sum.\<close>

lemma long_lived_expiration:
  "expiration (3336076801 / 2) (CInt 9007199254740993) = Inr 9007200922779392"
proof -
  have u1: "ulp 9007199254740993 = 2" by (rule ulp_53) simp_all
  have h1: "round_half_even (9007199254740993 / 2) = 4503599627370496"
    by (rule round_half_even_tie) simp_all
  have r1: "round_double 9007199254740993 = 9007199254740992"
    by (simp add: round_double_def u1 h1)
  have f: "float_of_int 9007199254740993 = Inr 9007199254740992"
    using not_inf [of 9007199254740992] by (simp add: float_of_int_def r1)
  have u2: "ulp (18014401845558785 / 2) = 2" by (rule ulp_53) simp_all
  have h2: "round_half_even (18014401845558785 / 4) = 4503600461389696"
    by (rule round_half_even_down) simp_all
  have r2: "round_double (18014401845558785 / 2) = 9007200922779392"
    by (simp add: round_double_def u2 h2)
  have n: "\<not> is_inf 9007200922779392" by (rule not_inf_54) simp
  show ?thesis
    using n by (simp add: expiration_def f float_add_def r2 int_of_float_def trunc_def)
qed

lemma generate_miss:
  assumes "cache_hit w a = None" and "expiration (now w) (jwt_expire_sec a) = Inr ex"
    and "read_path w (privkey_path a) = Inr private_key"
    and "jwt_encode w (jwt_payload a ex) private_key ''ES256'' (jwt_headers a) = Inr tok"
  shows "generate_jwt_token w a = (Inr tok, w\<lparr>token_cache := Some (self_id a, tok)\<rparr>)"
  using assms by (simp add: generate_jwt_token_def generate_jwt_token_body_def)

lemma example_AppleAPI: "AppleAPI 0 (defaults @ example_settings) = Inr example_api"
  by (simp add: AppleAPI_def AppleAPI_params_def defaults_def example_settings_def dict_get_def
      example_api_def)

lemma example_token:
  "generate_jwt_token example_world example_api =
     (Inr ''jwt.1668039600'', example_world\<lparr>token_cache := Some (0, ''jwt.1668039600'')\<rparr>)"
proof -
  have "generate_jwt_token example_world example_api =
     (Inr ''jwt.1668039600'',
      example_world\<lparr>token_cache := Some (self_id example_api, ''jwt.1668039600'')\<rparr>)"
    by (rule generate_miss [where ex = 1668039600 and private_key = "''PRIVATE KEY''"])
      (simp_all add: cache_hit_def read_path_def read_file_def jwt_payload_def dict_get_def
        example_world_def example_api_def example_expirations str_int_examples)
  then show ?thesis by (simp add: example_api_def)
qed

text \<open>
  C2, as the code has it. When the generator runs its body (no cached token for the
  instance) with a readable key and an integer lifetime \<open>L\<close>, where \<open>L\<close> and the sum
  of the time of the call and \<open>L\<close> are below \<open>2^53\<close> in magnitude, what it returns is
  the encoder's result for the algorithm ES256, the header \<open>alg = ES256\<close>, \<open>kid\<close> =
  the key id, \<open>typ = JWT\<close> and the payload \<open>iss\<close> = the issuer id, \<open>exp\<close>,
  \<open>aud = appstoreconnect-v1\<close>, where \<open>exp\<close> is an integer less than one second away
  from the time of the call plus \<open>L\<close>. Beyond that range the floats no longer tell
  neighbouring integers apart: with a lifetime of \<open>2^53 + 1\<close> seconds the expiration in
  the payload is 1.5 seconds away from the time of the call plus the lifetime.
\<close>

theorem token_contents:
  assumes "jwt_expire_sec a = CInt L" and "cache_hit w a = None"
    and "read_path w (privkey_path a) = Inr private_key"
    and "\<bar>L\<bar> < 2 ^ 53" and "\<bar>now w + of_int L\<bar> < 2 ^ 53"
  shows "\<exists>ex. fst (generate_jwt_token w a) =
             jwt_encode w [(''iss'', issuer_id a), (''exp'', CInt ex), (''aud'', CStr ''appstoreconnect-v1'')]
               private_key ''ES256''
               [(''alg'', CStr ''ES256''), (''kid'', key_id a), (''typ'', CStr ''JWT'')] \<and>
           \<bar>of_int ex - (now w + of_int L)\<bar> < 1"
proof -
  from expiration_near [OF assms(4) assms(5)] obtain ex
    where e: "expiration (now w) (CInt L) = Inr ex"
      and n: "\<bar>of_int ex - (now w + of_int L)\<bar> < 1"
    by blast
  have "fst (generate_jwt_token w a) =
          jwt_encode w [(''iss'', issuer_id a), (''exp'', CInt ex), (''aud'', CStr ''appstoreconnect-v1'')]
            private_key ''ES256''
            [(''alg'', CStr ''ES256''), (''kid'', key_id a), (''typ'', CStr ''JWT'')]"
    using assms(1) assms(2) assms(3) e
    by (simp add: generate_jwt_token_def generate_jwt_token_body_def
        jwt_payload_def jwt_headers_def split: sum.splits)
  with n show ?thesis by blast
qed

theorem token_contents_witness:
  "jwt_expire_sec example_api = CInt 1200 \<and> cache_hit example_world example_api = None \<and>
   read_path example_world (privkey_path example_api) = Inr ''PRIVATE KEY'' \<and>
   \<bar>1200 :: int\<bar> < 2 ^ 53 \<and> \<bar>now example_world + of_int 1200\<bar> < 2 ^ 53 \<and>
   (\<exists>ex. fst (generate_jwt_token example_world example_api) =
        jwt_encode example_world
          [(''iss'', issuer_id example_api), (''exp'', CInt ex), (''aud'', CStr ''appstoreconnect-v1'')]
          ''PRIVATE KEY'' ''ES256''
          [(''alg'', CStr ''ES256''), (''kid'', key_id example_api), (''typ'', CStr ''JWT'')] \<and>
        \<bar>of_int ex - (now example_world + of_int 1200)\<bar> < 1)"
proof -
  have h1: "jwt_expire_sec example_api = CInt 1200" by (simp add: example_api_def)
  have h2: "cache_hit example_world example_api = None"
    by (simp add: cache_hit_def example_world_def)
  have h3: "read_path example_world (privkey_path example_api) = Inr ''PRIVATE KEY''"
    by (simp add: read_path_def read_file_def example_world_def example_api_def)
  have h4: "\<bar>1200 :: int\<bar> < 2 ^ 53" by simp
  have h5: "\<bar>now example_world + of_int 1200\<bar> < 2 ^ 53" by (simp add: example_world_def)
  from token_contents [OF h1 h2 h3 h4 h5] h1 h2 h3 h4 h5 show ?thesis by blast
qed

theorem token_expiry_counterexample:
  "jwt_expire_sec long_lived_api = CInt 9007199254740993 \<and>
   now example_world = 1668038400.5 \<and>
   fst (generate_jwt_token example_world long_lived_api) =
     jwt_encode example_world
       [(''iss'', CStr ''ISSUER''), (''exp'', CInt 9007200922779392),
        (''aud'', CStr ''appstoreconnect-v1'')]
       ''PRIVATE KEY'' ''ES256''
       [(''alg'', CStr ''ES256''), (''kid'', CStr ''KEYID''), (''typ'', CStr ''JWT'')] \<and>
   \<bar>of_int 9007200922779392 - (1668038400.5 + of_int 9007199254740993)\<bar> = (3 / 2 :: rat)"
proof -
  have l: "jwt_expire_sec long_lived_api = CInt 9007199254740993"
    by (simp add: long_lived_api_def)
  have t: "now example_world = 1668038400.5" by (simp add: example_world_def)
  have c: "cache_hit example_world long_lived_api = None"
    by (simp add: cache_hit_def example_world_def)
  have k: "read_path example_world (privkey_path long_lived_api) = Inr ''PRIVATE KEY''"
    by (simp add: read_path_def read_file_def example_world_def example_api_def long_lived_api_def)
  have e: "expiration (now example_world) (jwt_expire_sec long_lived_api) = Inr 9007200922779392"
    using long_lived_expiration by (simp add: l t)
  have g: "fst (generate_jwt_token example_world long_lived_api) =
     jwt_encode example_world
       [(''iss'', CStr ''ISSUER''), (''exp'', CInt 9007200922779392),
        (''aud'', CStr ''appstoreconnect-v1'')]
       ''PRIVATE KEY'' ''ES256''
       [(''alg'', CStr ''ES256''), (''kid'', CStr ''KEYID''), (''typ'', CStr ''JWT'')]"
    using c e k
    by (simp add: generate_jwt_token_def generate_jwt_token_body_def jwt_payload_def
        jwt_headers_def long_lived_api_def example_api_def split: sum.splits)
  have d: "\<bar>of_int 9007200922779392 - (1668038400.5 + of_int 9007199254740993)\<bar> = (3 / 2 :: rat)"
    by simp
  from l t g d show ?thesis by blast
qed




section \<open>Requests\<close>

lemma send_http_request_valid:
  "vb \<in> set http_verbs \<Longrightarrow>
     send_http_request w vb target bdy (Passed (Some r)) v =
       (http w \<lparr>rq_verb = vb, rq_url = target, rq_verify = v, rq_body = bdy,
                 rq_headers = Some (heap w r)\<rparr>,
        w\<lparr>sent := sent w @ [\<lparr>rq_verb = vb, rq_url = target, rq_verify = v, rq_body = bdy,
                 rq_headers = Some (heap w r)\<rparr>]\<rparr>)"
  by (simp add: send_http_request_def Let_def)

lemma send_http_request_keeps:
  assumes "send_http_request w vb target bdy hdrs v = (res, w')"
  shows "heap w' = heap w" and "files w' = files w" and "token_cache w' = token_cache w"
  using assms by (auto simp: send_http_request_def Let_def split: if_splits)

lemma send_http_request_files:
  "files (snd (send_http_request w vb target bdy hdrs v)) = files w"
  by (simp add: send_http_request_def Let_def)

lemma get_is_verb: "''get'' \<in> set http_verbs"
  by (simp add: http_verbs_def)

lemma omitted_headers: "arg_or (Some signed_default_headers) Omitted = Some signed_default_headers"
  by simp

lemma dict_get_authorization:
  "dict_get (dict_update d (authorization token)) ''Authorization'' = Some (''Bearer '' @ token)"
  by (simp add: dict_get_update authorization_def)

lemma send_signed_unfold:
  assumes "generate_jwt_token w a = (Inr token, w1)"
    and "arg_or (Some signed_default_headers) hdrs = Some r"
  shows "send_signed_http_request w a vb target bdy hdrs v =
           send_http_request
             (w1\<lparr>heap := (heap w)(r := dict_update (heap w r) (authorization token))\<rparr>)
             vb target bdy (Passed (Some r)) v"
  using assms generate_jwt_token_keeps(1) [OF assms(1)]
  by (simp add: send_signed_http_request_def)

lemma request_in_review_report_run:
  assumes "generate_jwt_token w a = (Inr token, w1)"
  shows "request_in_review_report w a d =
           (let rq = \<lparr>rq_verb = ''get'',
                   rq_url = str_cval (api_base_url a) @ ''/reports/in-review/v1?rptg_date='' @ str_opt d,
                   rq_verify = True, rq_body = None,
                   rq_headers = Some (dict_update (heap w signed_default_headers) (authorization token))\<rparr>
            in (http w rq,
                w1\<lparr>heap := (heap w)(signed_default_headers :=
                       dict_update (heap w signed_default_headers) (authorization token)),
                   sent := sent w @ [rq]\<rparr>))"
  using generate_jwt_token_keeps [OF assms]
  by (simp add: request_in_review_report_def Let_def send_signed_unfold [OF assms omitted_headers]
      send_http_request_valid [OF get_is_verb])

lemma request_in_review_report_files:
  "files (snd (request_in_review_report w a d)) = files w"
proof (cases "generate_jwt_token w a")
  case (Pair r w1)
  then have f: "files w1 = files w"
    using generate_jwt_token_keeps [OF Pair] by simp
  show ?thesis
    using f
    by (simp add: request_in_review_report_def send_signed_http_request_def Pair Let_def
        send_http_request_files split: sum.splits option.splits)
qed

lemma request_in_review_report_writable:
  "writable (snd (request_in_review_report w a d)) = writable w"
proof (cases "generate_jwt_token w a")
  case (Pair r w1)
  then have f: "writable w1 = writable w"
    using generate_jwt_token_keeps [OF Pair] by simp
  show ?thesis
    using f
    by (simp add: request_in_review_report_def send_signed_http_request_def Pair Let_def
        send_http_request_def split: sum.splits option.splits)
qed

lemma request_in_review_report_write_fails:
  "write_fails (snd (request_in_review_report w a d)) = write_fails w"
proof (cases "generate_jwt_token w a")
  case (Pair r w1)
  then have f: "write_fails w1 = write_fails w"
    using generate_jwt_token_keeps [OF Pair] by simp
  show ?thesis
    using f
    by (simp add: request_in_review_report_def send_signed_http_request_def Pair Let_def
        send_http_request_def split: sum.splits option.splits)
qed

text \<open>
  C1. Once the token generator has issued a token, the request for the in-review report
  of day \<open>d\<close> makes exactly one HTTP call: a GET of the base URL followed by
  \<open>/reports/in-review/v1?rptg_date=\<close> and \<open>d\<close>, whose headers map
  \<open>Authorization\<close> to \<open>Bearer\<close>, a space and the token; what the call returns is
  returned as it is.
\<close>

theorem in_review_request:
  assumes "generate_jwt_token w a = (Inr token, w1)"
  shows "let hs = dict_update (heap w signed_default_headers) [(''Authorization'', ''Bearer '' @ token)];
             rq = \<lparr>rq_verb = ''get'',
                   rq_url = str_cval (api_base_url a) @ ''/reports/in-review/v1?rptg_date='' @ d,
                   rq_verify = True, rq_body = None, rq_headers = Some hs\<rparr>
         in dict_get hs ''Authorization'' = Some (''Bearer '' @ token) \<and>
            fst (request_in_review_report w a (Some d)) = http w rq \<and>
            sent (snd (request_in_review_report w a (Some d))) = sent w @ [rq]"
  using dict_get_authorization [of "heap w signed_default_headers" token]
  by (simp add: request_in_review_report_run [OF assms] Let_def authorization_def)

theorem in_review_request_witness:
  "generate_jwt_token example_world example_api =
     (Inr ''jwt.1668039600'', example_world\<lparr>token_cache := Some (0, ''jwt.1668039600'')\<rparr>) \<and>
   fst (request_in_review_report example_world example_api (Some ''2022-11-10'')) =
     Inr (200, [(''Content-Type'', ''text/tab-separated-values'')], ''a b c'') \<and>
   sent (snd (request_in_review_report example_world example_api (Some ''2022-11-10''))) =
     [\<lparr>rq_verb = ''get'',
       rq_url = ''https://musicanalytics.apple.com/reports/in-review/v1?rptg_date=2022-11-10'',
       rq_verify = True, rq_body = None,
       rq_headers = Some [(''Authorization'', ''Bearer jwt.1668039600'')]\<rparr>]"
proof -
  have a: "str_cval (api_base_url example_api) = ''https://musicanalytics.apple.com''"
    by (simp add: example_api_def)
  have h: "heap example_world signed_default_headers = []" by (simp add: example_world_def)
  have s: "sent example_world = []" by (simp add: example_world_def)
  have r: "http example_world \<lparr>rq_verb = ''get'',
       rq_url = ''https://musicanalytics.apple.com/reports/in-review/v1?rptg_date=2022-11-10'',
       rq_verify = True, rq_body = None,
       rq_headers = Some [(''Authorization'', ''Bearer jwt.1668039600'')]\<rparr> =
     Inr (200, [(''Content-Type'', ''text/tab-separated-values'')], ''a b c'')"
    by (simp add: example_world_def)
  from in_review_request [OF example_token, of "''2022-11-10''"]
  have "fst (request_in_review_report example_world example_api (Some ''2022-11-10'')) =
     Inr (200, [(''Content-Type'', ''text/tab-separated-values'')], ''a b c'') \<and>
   sent (snd (request_in_review_report example_world example_api (Some ''2022-11-10''))) =
     [\<lparr>rq_verb = ''get'',
       rq_url = ''https://musicanalytics.apple.com/reports/in-review/v1?rptg_date=2022-11-10'',
       rq_verify = True, rq_body = None,
       rq_headers = Some [(''Authorization'', ''Bearer jwt.1668039600'')]\<rparr>]"
    by (simp add: Let_def a h s r dict_update_def)
  with example_token show ?thesis by blast
qed

text \<open>
  C8. Whatever status code the response carries, 2xx or not, the signed request returns
  the status code, the headers and the text of the response as they are, and raises
  nothing.
\<close>

theorem status_returned_unchanged:
  assumes "generate_jwt_token w a = (Inr token, w1)"
    and "vb \<in> set http_verbs"
    and "arg_or (Some signed_default_headers) hdrs = Some r"
    and "http w \<lparr>rq_verb = vb, rq_url = target, rq_verify = v, rq_body = bdy,
                  rq_headers = Some (dict_update (heap w r) (authorization token))\<rparr> = Inr (code, hs, txt)"
  shows "fst (send_signed_http_request w a vb target bdy hdrs v) = Inr (code, hs, txt)"
  using assms(4) generate_jwt_token_keeps [OF assms(1)]
  by (simp add: send_signed_unfold [OF assms(1) assms(3)] send_http_request_valid [OF assms(2)])

theorem status_returned_unchanged_witness:
  "generate_jwt_token example_world example_api =
     (Inr ''jwt.1668039600'', example_world\<lparr>token_cache := Some (0, ''jwt.1668039600'')\<rparr>) \<and>
   ''get'' \<in> set http_verbs \<and>
   arg_or (Some signed_default_headers) Omitted = Some signed_default_headers \<and>
   http example_world \<lparr>rq_verb = ''get'', rq_url = ''https://musicanalytics.apple.com/nothing'',
       rq_verify = True, rq_body = None,
       rq_headers = Some (dict_update (heap example_world signed_default_headers)
                            (authorization ''jwt.1668039600''))\<rparr> = Inr (404, [], ''Not Found'') \<and>
   \<not> (200 \<le> (404 :: int) \<and> (404 :: int) < 300) \<and>
   fst (send_signed_http_request example_world example_api ''get''
          ''https://musicanalytics.apple.com/nothing'' None Omitted True) = Inr (404, [], ''Not Found'')"
proof -
  have h: "http example_world \<lparr>rq_verb = ''get'', rq_url = ''https://musicanalytics.apple.com/nothing'',
       rq_verify = True, rq_body = None,
       rq_headers = Some (dict_update (heap example_world signed_default_headers)
                            (authorization ''jwt.1668039600''))\<rparr> = Inr (404, [], ''Not Found'')"
    by (simp add: example_world_def)
  have n: "\<not> (200 \<le> (404 :: int) \<and> (404 :: int) < 300)" by simp
  from status_returned_unchanged [OF example_token get_is_verb omitted_headers h]
    example_token get_is_verb omitted_headers h n
  show ?thesis by blast
qed

text \<open>
  C10. Once the token generator has issued a token, a signed request changes the header
  dictionary it was given, in place: after the call that dictionary maps
  \<open>Authorization\<close> to the bearer token, no other dictionary has changed, and the HTTP
  call that was made carries the changed dictionary. A call that leaves \<open>headers\<close> out
  works on the one default dictionary, and so does the next such call, which starts from
  what the first one left there.
\<close>

theorem headers_mutated_in_place:
  assumes "generate_jwt_token w a = (Inr token, w1)"
    and "arg_or (Some signed_default_headers) hdrs = Some r"
    and "send_signed_http_request w a vb target bdy hdrs v = (res, w')"
  shows "heap w' r = dict_update (heap w r) (authorization token) \<and>
         dict_get (heap w' r) ''Authorization'' = Some (''Bearer '' @ token) \<and>
         (\<forall>r'. r' \<noteq> r \<longrightarrow> heap w' r' = heap w r') \<and>
         (vb \<in> set http_verbs \<longrightarrow>
            sent w' = sent w @ [\<lparr>rq_verb = vb, rq_url = target, rq_verify = v, rq_body = bdy,
                                  rq_headers = Some (heap w' r)\<rparr>]) \<and>
         (hdrs = Omitted \<longrightarrow>
            r = signed_default_headers \<and>
            (\<forall>vb2 target2 bdy2 v2.
               heap (snd (send_signed_http_request w' a vb2 target2 bdy2 Omitted v2)) signed_default_headers =
                 dict_update (heap w' signed_default_headers) (authorization token)))"
proof -
  let ?w2 = "w1\<lparr>heap := (heap w)(r := dict_update (heap w r) (authorization token))\<rparr>"
  have s: "send_http_request ?w2 vb target bdy (Passed (Some r)) v = (res, w')"
    using assms(3) by (simp add: send_signed_unfold [OF assms(1) assms(2)])
  have h: "heap w' = (heap w)(r := dict_update (heap w r) (authorization token))"
    using send_http_request_keeps(1) [OF s] by simp
  have c1: "heap w' r = dict_update (heap w r) (authorization token)"
    by (simp add: h)
  have c2: "dict_get (heap w' r) ''Authorization'' = Some (''Bearer '' @ token)"
    by (simp add: c1 dict_get_authorization)
  have c3: "\<forall>r'. r' \<noteq> r \<longrightarrow> heap w' r' = heap w r'"
    by (simp add: h)
  have c4: "vb \<in> set http_verbs \<longrightarrow>
            sent w' = sent w @ [\<lparr>rq_verb = vb, rq_url = target, rq_verify = v, rq_body = bdy,
                                  rq_headers = Some (heap w' r)\<rparr>]"
  proof
    assume vb: "vb \<in> set http_verbs"
    from s have "w' = ?w2\<lparr>sent := sent ?w2 @ [\<lparr>rq_verb = vb, rq_url = target, rq_verify = v,
                      rq_body = bdy, rq_headers = Some (heap ?w2 r)\<rparr>]\<rparr>"
      by (simp add: send_http_request_valid [OF vb])
    then have "sent w' = sent ?w2 @ [\<lparr>rq_verb = vb, rq_url = target, rq_verify = v,
                      rq_body = bdy, rq_headers = Some (heap ?w2 r)\<rparr>]"
      by simp
    then show "sent w' = sent w @ [\<lparr>rq_verb = vb, rq_url = target, rq_verify = v, rq_body = bdy,
                                  rq_headers = Some (heap w' r)\<rparr>]"
      using generate_jwt_token_keeps(3) [OF assms(1)] by (simp add: c1)
  qed
  have c5: "hdrs = Omitted \<longrightarrow>
            r = signed_default_headers \<and>
            (\<forall>vb2 target2 bdy2 v2.
               heap (snd (send_signed_http_request w' a vb2 target2 bdy2 Omitted v2)) signed_default_headers =
                 dict_update (heap w' signed_default_headers) (authorization token))"
  proof
    assume o: "hdrs = Omitted"
    then have r: "r = signed_default_headers" using assms(2) by simp
    have "cache_hit w1 a = Some token" using assms(1) by (rule generate_jwt_token_cached)
    moreover have "token_cache w' = token_cache w1"
      using send_http_request_keeps(3) [OF s] by simp
    ultimately have "cache_hit w' a = Some token" by (simp add: cache_hit_def)
    then have g: "generate_jwt_token w' a = (Inr token, w')" by (rule generate_jwt_token_hit)
    have "\<forall>vb2 target2 bdy2 v2.
               heap (snd (send_signed_http_request w' a vb2 target2 bdy2 Omitted v2)) signed_default_headers =
                 dict_update (heap w' signed_default_headers) (authorization token)"
    proof (intro allI)
      fix vb2 target2 bdy2 v2
      obtain res2 w2 where e: "send_signed_http_request w' a vb2 target2 bdy2 Omitted v2 = (res2, w2)"
        by (cases "send_signed_http_request w' a vb2 target2 bdy2 Omitted v2") blast
      then have "send_http_request
             (w'\<lparr>heap := (heap w')(signed_default_headers :=
                  dict_update (heap w' signed_default_headers) (authorization token))\<rparr>)
             vb2 target2 bdy2 (Passed (Some signed_default_headers)) v2 = (res2, w2)"
        by (simp add: send_signed_unfold [OF g omitted_headers])
      from send_http_request_keeps(1) [OF this] e
      show "heap (snd (send_signed_http_request w' a vb2 target2 bdy2 Omitted v2)) signed_default_headers =
                 dict_update (heap w' signed_default_headers) (authorization token)"
        by simp
    qed
    with r show "r = signed_default_headers \<and>
            (\<forall>vb2 target2 bdy2 v2.
               heap (snd (send_signed_http_request w' a vb2 target2 bdy2 Omitted v2)) signed_default_headers =
                 dict_update (heap w' signed_default_headers) (authorization token))"
      by blast
  qed
  from c1 c2 c3 c4 c5 show ?thesis by blast
qed

theorem headers_mutated_in_place_witness:
  "generate_jwt_token example_world example_api =
     (Inr ''jwt.1668039600'', example_world\<lparr>token_cache := Some (0, ''jwt.1668039600'')\<rparr>) \<and>
   arg_or (Some signed_default_headers) Omitted = Some signed_default_headers \<and>
   heap example_world signed_default_headers = [] \<and>
   heap (snd (send_signed_http_request example_world example_api ''get''
                ''https://musicanalytics.apple.com/nothing'' None Omitted True)) signed_default_headers =
     [(''Authorization'', ''Bearer jwt.1668039600'')] \<and>
   sent (snd (send_signed_http_request example_world example_api ''get''
                ''https://musicanalytics.apple.com/nothing'' None Omitted True)) =
     [\<lparr>rq_verb = ''get'', rq_url = ''https://musicanalytics.apple.com/nothing'', rq_verify = True,
       rq_body = None, rq_headers = Some [(''Authorization'', ''Bearer jwt.1668039600'')]\<rparr>]"
proof -
  let ?x = "send_signed_http_request example_world example_api ''get''
                ''https://musicanalytics.apple.com/nothing'' None Omitted True"
  have h3: "?x = (fst ?x, snd ?x)" by simp
  have e: "heap example_world signed_default_headers = []" by (simp add: example_world_def)
  have s: "sent example_world = []" by (simp add: example_world_def)
  have u: "dict_update [] (authorization ''jwt.1668039600'') =
             [(''Authorization'', ''Bearer jwt.1668039600'')]"
    by (simp add: dict_update_def authorization_def)
  from headers_mutated_in_place [OF example_token omitted_headers h3]
  have "heap (snd ?x) signed_default_headers = [(''Authorization'', ''Bearer jwt.1668039600'')] \<and>
        sent (snd ?x) =
          [\<lparr>rq_verb = ''get'', rq_url = ''https://musicanalytics.apple.com/nothing'', rq_verify = True,
            rq_body = None, rq_headers = Some [(''Authorization'', ''Bearer jwt.1668039600'')]\<rparr>]"
    using get_is_verb by (simp add: e s u)
  with example_token omitted_headers e show ?thesis by blast
qed

section \<open>The script\<close>

lemma operation_ct_one: "operation_ct ns = 1"
  by (cases "get_in_review ns") (simp_all add: operation_ct_def)

lemma main_run:
  assumes "Configurator w (Some (config ns)) [] = Inr cfg" and "AppleAPI 0 cfg = Inr a"
    and "request_in_review_report w a (get_in_review ns) = (Inr (code, hs, txt), w1)"
  shows "main w ns =
           (if code = 200
            then (case write_in_review_report w1 (get_in_review ns) txt of
                    (Inl e, w2) \<Rightarrow> (Uncaught e, w2)
                  | (Inr u, w2) \<Rightarrow> (Finished, w2))
            else (Uncaught (RuntimeError (''API returned an HTTP '' @ str_int code @ ''.'')), w1))"
proof -
  have t: "is_not_False (get_in_review ns)" by (cases "get_in_review ns") simp_all
  show ?thesis using assms t by (simp add: main_def operation_ct_one)
qed

lemma example_facts:
  "str_cval (api_base_url example_api) = ''https://musicanalytics.apple.com''"
  "heap example_world signed_default_headers = []"
  "sent example_world = []"
  "stdout example_world = []"
  "dict_update [] (authorization ''jwt.1668039600'') = [(''Authorization'', ''Bearer jwt.1668039600'')]"
  by (simp_all add: example_api_def example_world_def dict_update_def authorization_def)

lemma example_request:
  "request_in_review_report example_world example_api d =
     (http example_world
        \<lparr>rq_verb = ''get'',
          rq_url = ''https://musicanalytics.apple.com/reports/in-review/v1?rptg_date='' @ str_opt d,
          rq_verify = True, rq_body = None,
          rq_headers = Some [(''Authorization'', ''Bearer jwt.1668039600'')]\<rparr>,
      snd (request_in_review_report example_world example_api d))"
proof -
  have "fst (request_in_review_report example_world example_api d) =
     http example_world
        \<lparr>rq_verb = ''get'',
          rq_url = ''https://musicanalytics.apple.com/reports/in-review/v1?rptg_date='' @ str_opt d,
          rq_verify = True, rq_body = None,
          rq_headers = Some [(''Authorization'', ''Bearer jwt.1668039600'')]\<rparr>"
    by (simp add: request_in_review_report_run [OF example_token] Let_def example_facts)
  then show ?thesis by (simp add: prod_eq_iff)
qed

lemma example_request_sent:
  "sent (snd (request_in_review_report example_world example_api d)) =
     [\<lparr>rq_verb = ''get'',
       rq_url = ''https://musicanalytics.apple.com/reports/in-review/v1?rptg_date='' @ str_opt d,
       rq_verify = True, rq_body = None,
       rq_headers = Some [(''Authorization'', ''Bearer jwt.1668039600'')]\<rparr>]"
  by (simp add: request_in_review_report_run [OF example_token] Let_def example_facts)

lemma example_request_stdout:
  "stdout (snd (request_in_review_report example_world example_api d)) = []"
  by (simp add: request_in_review_report_run [OF example_token] Let_def example_facts)

lemma write_file_cases:
  "write_file w file_name content =
     (if \<not> writable w file_name then (Inl (OSError file_name), w)
      else case write_fails w file_name content of
             Some (e, n) \<Rightarrow> (Inl e, w\<lparr>files := (files w)(file_name \<mapsto> take n content)\<rparr>)
           | None \<Rightarrow> (Inr (), w\<lparr>files := (files w)(file_name \<mapsto> content)\<rparr>))"
  by (simp add: write_file_def Let_def split: option.splits)

text \<open>
  C9. In a run that reaches the API and gets a response: when the status is not 200, the
  script ends with the \<open>RuntimeError\<close> whose message is \<open>API returned an HTTP\<close>,
  the status code in decimal, and a full stop, and the files are what they were. When the
  status is 200 and the day \<open>d\<close> was asked for, the response text goes to the report
  writer and to \<open>in-review-d.tsv\<close>: when that file cannot be opened for writing the
  script ends with the error and the files are what they were; when it is opened and
  written the script ends normally and the file holds the text of the response; when the
  writing raises after the file was opened, the script ends with that exception and the
  file holds the part of the text written until then.
\<close>

theorem non_200_is_fatal:
  assumes "Configurator w (Some (config ns)) [] = Inr cfg" and "AppleAPI 0 cfg = Inr a"
    and "request_in_review_report w a (get_in_review ns) = (Inr (code, hs, txt), w1)"
  shows "(code \<noteq> 200 \<longrightarrow>
            main w ns = (Uncaught (RuntimeError (''API returned an HTTP '' @ str_int code @ ''.'')), w1) \<and>
            files (snd (main w ns)) = files w) \<and>
         (code = 200 \<longrightarrow>
            (\<forall>d. get_in_review ns = Some d \<longrightarrow>
               (if \<not> writable w (''in-review-'' @ d @ ''.tsv'')
                then fst (main w ns) = Uncaught (OSError (''in-review-'' @ d @ ''.tsv'')) \<and>
                     files (snd (main w ns)) = files w
                else
                  (case write_fails w (''in-review-'' @ d @ ''.tsv'') txt of
                     None \<Rightarrow>
                       fst (main w ns) = Finished \<and>
                       files (snd (main w ns)) = (files w)(''in-review-'' @ d @ ''.tsv'' \<mapsto> txt)
                   | Some (e, n) \<Rightarrow>
                       fst (main w ns) = Uncaught e \<and>
                       files (snd (main w ns)) =
                         (files w)(''in-review-'' @ d @ ''.tsv'' \<mapsto> take n txt)))))"
proof -
  have f: "files w1 = files w"
    using request_in_review_report_files [of w a "get_in_review ns"] assms(3) by simp
  have wr: "writable w1 = writable w"
    using request_in_review_report_writable [of w a "get_in_review ns"] assms(3) by simp
  have wf: "write_fails w1 = write_fails w"
    using request_in_review_report_write_fails [of w a "get_in_review ns"] assms(3) by simp
  show ?thesis
    using f wr wf
    by (auto simp: main_run [OF assms] write_in_review_report_def write_file_cases
        split: option.splits)
qed

theorem non_200_is_fatal_witness:
  "Configurator example_world (Some (config unknown_day)) [] = Inr (defaults @ example_settings) \<and>
   AppleAPI 0 (defaults @ example_settings) = Inr example_api \<and>
   get_in_review unknown_day = Some ''1999-12-31'' \<and>
   fst (request_in_review_report example_world example_api (get_in_review unknown_day)) =
     Inr (404, [], ''Not Found'') \<and>
   fst (main example_world unknown_day) = Uncaught (RuntimeError ''API returned an HTTP 404.'') \<and>
   files (snd (main example_world unknown_day)) = files example_world \<and>
   Configurator example_world (Some (config known_day)) [] = Inr (defaults @ example_settings) \<and>
   get_in_review known_day = Some ''2022-11-10'' \<and>
   fst (request_in_review_report example_world example_api (get_in_review known_day)) =
     Inr (200, [(''Content-Type'', ''text/tab-separated-values'')], ''a b c'') \<and>
   fst (main example_world known_day) = Finished \<and>
   files (snd (main example_world known_day)) =
     (files example_world)(''in-review-2022-11-10.tsv'' \<mapsto> ''a b c'')"
proof -
  let ?w1 = "snd (request_in_review_report example_world example_api (Some ''1999-12-31''))"
  let ?w2 = "snd (request_in_review_report example_world example_api (Some ''2022-11-10''))"
  have h1: "get_in_review unknown_day = Some ''1999-12-31''" by (simp add: unknown_day_def)
  have h2: "Configurator example_world (Some (config unknown_day)) [] = Inr (defaults @ example_settings)"
    by (simp add: unknown_day_def example_config)
  have h: "http example_world
        \<lparr>rq_verb = ''get'',
          rq_url = ''https://musicanalytics.apple.com/reports/in-review/v1?rptg_date='' @ str_opt (Some ''1999-12-31''),
          rq_verify = True, rq_body = None,
          rq_headers = Some [(''Authorization'', ''Bearer jwt.1668039600'')]\<rparr> = Inr (404, [], ''Not Found'')"
    by (simp add: example_world_def)
  have h4: "request_in_review_report example_world example_api (get_in_review unknown_day) =
              (Inr (404, [], ''Not Found''), ?w1)"
    using example_request [of "Some ''1999-12-31''"] by (simp only: h h1)
  then have h4': "fst (request_in_review_report example_world example_api (get_in_review unknown_day)) =
     Inr (404, [], ''Not Found'')"
    by (metis fst_conv)
  from non_200_is_fatal [OF h2 example_AppleAPI h4]
  have c1: "fst (main example_world unknown_day) = Uncaught (RuntimeError ''API returned an HTTP 404.'') \<and>
        files (snd (main example_world unknown_day)) = files example_world"
    by (auto simp: str_int_examples)
  have k1: "get_in_review known_day = Some ''2022-11-10''" by (simp add: known_day_def)
  have k2: "Configurator example_world (Some (config known_day)) [] = Inr (defaults @ example_settings)"
    by (simp add: known_day_def example_config)
  have k: "http example_world
        \<lparr>rq_verb = ''get'',
          rq_url = ''https://musicanalytics.apple.com/reports/in-review/v1?rptg_date='' @ str_opt (Some ''2022-11-10''),
          rq_verify = True, rq_body = None,
          rq_headers = Some [(''Authorization'', ''Bearer jwt.1668039600'')]\<rparr> =
        Inr (200, [(''Content-Type'', ''text/tab-separated-values'')], ''a b c'')"
    by (simp add: example_world_def)
  have k4: "request_in_review_report example_world example_api (get_in_review known_day) =
              (Inr (200, [(''Content-Type'', ''text/tab-separated-values'')], ''a b c''), ?w2)"
    using example_request [of "Some ''2022-11-10''"] by (simp only: k k1)
  then have k4': "fst (request_in_review_report example_world example_api (get_in_review known_day)) =
     Inr (200, [(''Content-Type'', ''text/tab-separated-values'')], ''a b c'')"
    by (metis fst_conv)
  have wr: "writable example_world ''in-review-2022-11-10.tsv''"
    and wf: "write_fails example_world ''in-review-2022-11-10.tsv'' ''a b c'' = None"
    by (simp_all add: example_world_def)
  from non_200_is_fatal [OF k2 example_AppleAPI k4]
  have c2: "fst (main example_world known_day) = Finished \<and>
        files (snd (main example_world known_day)) =
          (files example_world)(''in-review-2022-11-10.tsv'' \<mapsto> ''a b c'')"
    using k1 wr wf by simp
  from h1 h2 example_AppleAPI h4' c1 k1 k2 k4' c2 show ?thesis by blast
qed

text \<open>
  C7, on the code. \<open>--get-in-review\<close> has no default, so without the flag the parsed
  value is \<open>None\<close>, and \<open>None is not False\<close> holds: the operation count is 1 for every
  command line, the usage branch is never taken. Started without the flag, the script
  prints nothing, asks the API for the report of the day \<open>None\<close>, and ends with the error
  for the status it gets back.
\<close>

theorem main_without_operation_flag:
  "get_in_review no_flag = None \<and>
   operation_ct no_flag = 1 \<and>
   fst (main example_world no_flag) = Uncaught (RuntimeError ''API returned an HTTP 404.'') \<and>
   sent (snd (main example_world no_flag)) =
     [\<lparr>rq_verb = ''get'',
       rq_url = ''https://musicanalytics.apple.com/reports/in-review/v1?rptg_date=None'',
       rq_verify = True, rq_body = None,
       rq_headers = Some [(''Authorization'', ''Bearer jwt.1668039600'')]\<rparr>] \<and>
   stdout (snd (main example_world no_flag)) = []"
proof -
  let ?w1 = "snd (request_in_review_report example_world example_api None)"
  have g: "get_in_review no_flag = None" by (simp add: no_flag_def)
  have c: "Configurator example_world (Some (config no_flag)) [] = Inr (defaults @ example_settings)"
    by (simp add: no_flag_def example_config)
  have h: "http example_world
        \<lparr>rq_verb = ''get'',
          rq_url = ''https://musicanalytics.apple.com/reports/in-review/v1?rptg_date='' @ str_opt None,
          rq_verify = True, rq_body = None,
          rq_headers = Some [(''Authorization'', ''Bearer jwt.1668039600'')]\<rparr> = Inr (404, [], ''Not Found'')"
    by (simp add: example_world_def)
  have r: "request_in_review_report example_world example_api (get_in_review no_flag) =
              (Inr (404, [], ''Not Found''), ?w1)"
    using example_request [of None] by (simp only: h g)
  have m: "main example_world no_flag =
             (Uncaught (RuntimeError ''API returned an HTTP 404.''), ?w1)"
    by (simp add: main_run [OF c example_AppleAPI r] str_int_examples)
  show ?thesis
    using example_request_sent [of None] example_request_stdout [of None]
    by (simp add: m g operation_ct_one)
qed

end
